theory Spec2Isabelle
  imports Main "HOL-Library.Word"
begin

section \<open>JavaScript values used by the pages\<close>

text \<open>
  A JavaScript string is a sequence of UTF-16 code units; \<open>s.length\<close> counts code units and
  \<open>===\<close> compares them one by one. String literals of the source are ASCII and are
  written with \<open>lit\<close>.
\<close>

type_synonym code_unit = "16 word"
type_synonym jsstring = "code_unit list"

definition lit :: "string \<Rightarrow> jsstring" where
  "lit s = map (\<lambda>c. of_nat (of_char c)) s"

text \<open>
  \<open>String.prototype.trim\<close> removes leading and trailing WhiteSpace and LineTerminator
  code points (ECMAScript): TAB, LF, VT, FF, CR, SP, NBSP, the Unicode space separators,
  LS, PS and the byte order mark. All of them are single code units.
\<close>

definition is_ws :: "code_unit \<Rightarrow> bool" where
  "is_ws c = (c \<in> set [0x0009, 0x000A, 0x000B, 0x000C, 0x000D, 0x0020, 0x00A0, 0x1680,
     0x2000, 0x2001, 0x2002, 0x2003, 0x2004, 0x2005, 0x2006, 0x2007, 0x2008, 0x2009, 0x200A,
     0x2028, 0x2029, 0x202F, 0x205F, 0x3000, 0xFEFF])"

definition trim :: "jsstring \<Rightarrow> jsstring" where
  "trim s = rev (dropWhile is_ws (rev (dropWhile is_ws s)))"

text \<open>What a \<open>catch (err)\<close> clause receives: an \<open>Error\<close> with its message, or any other value.\<close>

datatype thrown = Error jsstring | NotAnError

text \<open>\<open>err instanceof Error ? err.message : fallback\<close>\<close>

fun err_message :: "thrown \<Rightarrow> jsstring \<Rightarrow> jsstring" where
  "err_message (Error m) fallback = m"
| "err_message NotAnError fallback = fallback"

text \<open>\<open>Number(id)\<close> of a route parameter that may be absent.\<close>

datatype jsnum = Num int | NaN

fun Number :: "int option \<Rightarrow> jsnum" where
  "Number (Some i) = Num i"
| "Number None = NaN"

section \<open>Data model (types.ts)\<close>

text \<open>The fields the handlers and the render conditions read; display-only fields are left out.\<close>

record user =
  user_id :: int
  email :: jsstring

record project =
  proj_id :: int
  creator_id :: int
  title :: jsstring
  roles_needed :: "jsstring list"
  proj_status :: jsstring

record application =
  app_id :: int
  app_project_id :: int
  applicant_id :: int
  cover_letter :: "jsstring option"
  proposed_role :: "jsstring option"
  app_status :: jsstring

record collaboration =
  collab_id :: int
  collab_project_id :: int
  collab_user_id :: int
  collab_role :: jsstring
  collab_status :: jsstring

record message =
  msg_id :: int
  conversation_id :: int
  sender_id :: int
  content :: jsstring

record conversation =
  conv_id :: int
  conv_type :: jsstring
  conv_messages :: "message list option"

section \<open>What a handler does to the outside\<close>

text \<open>
  The requests of \<open>api/client\<close> a handler issues and the other effects it has outside the
  component state, in the order they happen. The outcome of an awaited request is an argument
  of the handler's model: \<open>Inl\<close> what the request threw, \<open>Inr\<close> what it returned.
\<close>

datatype effect =
    GetProject jsnum
  | CreateApplication int jsstring jsstring
  | UpdateApplication int jsstring
  | LeaveCollaboration int
  | GetConversation jsnum
  | SendMessage jsnum jsstring
  | MarkAsRead jsnum
  | Navigate string
  | Alert jsstring
  | ConsoleError

section \<open>ProjectDetailPage\<close>

record detail_state =
  project :: "project option"
  loading :: bool
  error :: jsstring
  showApplyModal :: bool
  selectedRole :: jsstring
  coverMessage :: jsstring
  applying :: bool
  applyError :: jsstring

definition detail_init :: detail_state where
  "detail_init = \<lparr> project = None, loading = True, error = [], showApplyModal = False,
     selectedRole = [], coverMessage = [], applying = False, applyError = [] \<rparr>"

text \<open>
  \<open>fetchProject\<close>, run by the effect on the route parameter \<open>id\<close>: at mount and again
  whenever \<open>id\<close> changes while the page stays mounted. The first argument is \<open>None\<close> when
  \<open>!id\<close>, and otherwise what \<open>parseInt(id)\<close> gives; the second is the outcome of
  \<open>getProject\<close>. Nothing but the fields assigned here is reset by a later run.
\<close>

fun fetchProject :: "jsnum option \<Rightarrow> thrown + project \<Rightarrow> detail_state \<Rightarrow> detail_state \<times> effect list" where
  "fetchProject None r st = (st, [])"
| "fetchProject (Some i) (Inr data) st =
     (let st1 = st\<lparr>project := Some data\<rparr>;
          st2 = (case roles_needed data of [] \<Rightarrow> st1 | r0 # _ \<Rightarrow> st1\<lparr>selectedRole := r0\<rparr>)
      in (st2\<lparr>loading := False\<rparr>, [GetProject i]))"
| "fetchProject (Some i) (Inl err) st =
     (st\<lparr>error := err_message err (lit ''Failed to load project''), loading := False\<rparr>,
      [GetProject i])"

text \<open>\<open>handleApply\<close>; the argument is the outcome of \<open>createApplication\<close>.\<close>

definition handleApply :: "thrown + application \<Rightarrow> detail_state \<Rightarrow> detail_state \<times> effect list" where
  "handleApply r st =
     (case project st of
        None \<Rightarrow> (st, [])
      | Some p \<Rightarrow>
          if length (coverMessage st) < 50
          then (st\<lparr>applyError := lit ''Cover message must be at least 50 characters''\<rparr>, [])
          else
            (let st1 = st\<lparr>applying := True, applyError := []\<rparr>;
                 req = CreateApplication (proj_id p) (selectedRole st) (coverMessage st)
             in case r of
                  Inr created \<Rightarrow>
                    (st1\<lparr>showApplyModal := False, applying := False\<rparr>,
                     [req, Navigate ''/applications''])
                | Inl err \<Rightarrow>
                    (st1\<lparr>applyError := err_message err (lit ''Failed to apply''), applying := False\<rparr>,
                     [req])))"

text \<open>The render conditions of the page.\<close>

definition isCreator :: "user option \<Rightarrow> project \<Rightarrow> bool" where
  "isCreator u p = (case u of None \<Rightarrow> False | Some usr \<Rightarrow> user_id usr = creator_id p)"

definition canApply :: "user option \<Rightarrow> project \<Rightarrow> bool" where
  "canApply u p = (u \<noteq> None \<and> \<not> isCreator u p \<and> proj_status p = lit ''open'')"

definition page_rendered :: "detail_state \<Rightarrow> bool" where
  "page_rendered st = (\<not> loading st \<and> \<not> (error st \<noteq> [] \<or> project st = None))"

definition modal_rendered :: "detail_state \<Rightarrow> bool" where
  "modal_rendered st = (page_rendered st \<and> showApplyModal st)"

definition role_options :: "detail_state \<Rightarrow> jsstring list" where
  "role_options st = (case project st of None \<Rightarrow> [] | Some p \<Rightarrow> roles_needed p)"

definition submit_disabled :: "detail_state \<Rightarrow> bool" where
  "submit_disabled st = (applying st \<or> length (coverMessage st) < 50)"

text \<open>
  What happens on the mounted page. A user event acts only when the element that carries it
  is rendered: the apply button under \<open>canApply\<close>, the modal's controls while the modal is
  shown, the submit button unless disabled, a role only among the options of the selector.
  \<open>RouteChange\<close> is the answer to the \<open>fetchProject\<close> that the effect runs again after
  the route parameter has changed within the mount.
\<close>

datatype detail_event =
    ClickApply
  | ClickCancel
  | SelectRole nat
  | TypeCover jsstring
  | ClickSubmit "thrown + application"
  | RouteChange "jsnum option" "thrown + project"

fun detail_step :: "user option \<Rightarrow> detail_event \<Rightarrow> detail_state \<Rightarrow> detail_state \<times> effect list" where
  "detail_step u ClickApply st =
     (case project st of
        None \<Rightarrow> (st, [])
      | Some p \<Rightarrow> if page_rendered st \<and> canApply u p then (st\<lparr>showApplyModal := True\<rparr>, []) else (st, []))"
| "detail_step u ClickCancel st =
     (if modal_rendered st then (st\<lparr>showApplyModal := False\<rparr>, []) else (st, []))"
| "detail_step u (SelectRole k) st =
     (if modal_rendered st \<and> k < length (role_options st)
      then (st\<lparr>selectedRole := role_options st ! k\<rparr>, []) else (st, []))"
| "detail_step u (TypeCover s) st =
     (if modal_rendered st then (st\<lparr>coverMessage := s\<rparr>, []) else (st, []))"
| "detail_step u (ClickSubmit r) st =
     (if modal_rendered st \<and> \<not> submit_disabled st then handleApply r st else (st, []))"
| "detail_step u (RouteChange idp r) st = fetchProject idp r st"

fun detail_run :: "user option \<Rightarrow> detail_event list \<Rightarrow> detail_state \<Rightarrow> detail_state \<times> effect list" where
  "detail_run u [] st = (st, [])"
| "detail_run u (ev # evs) st =
     (let (st1, out1) = detail_step u ev st;
          (st2, out2) = detail_run u evs st1
      in (st2, out1 @ out2))"

text \<open>
  A mount of the page: the effect runs \<open>fetchProject\<close> on the initial state for the route
  parameter \<open>idp\<close> with outcome \<open>r\<close>, then the events happen.
\<close>

definition detail_visit :: "user option \<Rightarrow> jsnum option \<Rightarrow> thrown + project \<Rightarrow> detail_event list \<Rightarrow> detail_state \<times> effect list" where
  "detail_visit u idp r evs =
     (let (st0, out0) = fetchProject idp r detail_init;
          (st1, out1) = detail_run u evs st0
      in (st1, out0 @ out1))"

text \<open>
  What holds of the selected role all through a mount: when the project held declares
  roles, the selected role is one of them.
\<close>

definition role_inv :: "detail_state \<Rightarrow> bool" where
  "role_inv st =
     (case project st of
        None \<Rightarrow> True
      | Some p \<Rightarrow> roles_needed p = [] \<or> selectedRole st \<in> set (roles_needed p))"

section \<open>MyApplicationsPage\<close>

record my_apps_state =
  my_applications :: "application list"
  my_loading :: bool
  my_error :: jsstring

text \<open>\<open>fetchApplications\<close>; the argument is the outcome of \<open>getMyApplications\<close>.\<close>

fun fetchMyApplications :: "thrown + application list \<Rightarrow> my_apps_state \<Rightarrow> my_apps_state" where
  "fetchMyApplications (Inr data) st = st\<lparr>my_applications := data, my_loading := False\<rparr>"
| "fetchMyApplications (Inl err) st =
     st\<lparr>my_error := err_message err (lit ''Failed to load applications''), my_loading := False\<rparr>"

text \<open>
  \<open>handleWithdraw\<close>; \<open>confirmed\<close> is the answer to the \<open>confirm\<close> dialog, \<open>r\<close> the outcome
  of \<open>updateApplication\<close>.
\<close>

definition handleWithdraw :: "int \<Rightarrow> bool \<Rightarrow> thrown + application \<Rightarrow> my_apps_state \<Rightarrow> my_apps_state \<times> effect list" where
  "handleWithdraw i confirmed r st =
     (if \<not> confirmed then (st, [])
      else case r of
        Inr _ \<Rightarrow>
          (st\<lparr>my_applications :=
               map (\<lambda>app. if app_id app = i then app\<lparr>app_status := lit ''withdrawn''\<rparr> else app)
                 (my_applications st)\<rparr>,
           [UpdateApplication i (lit ''withdrawn'')])
      | Inl err \<Rightarrow>
          (st, [UpdateApplication i (lit ''withdrawn''),
                Alert (err_message err (lit ''Failed to withdraw application''))]))"

text \<open>The Withdraw button of an application card: \<open>application.status === 'pending' && ...\<close>\<close>

definition withdraw_button :: "application \<Rightarrow> bool" where
  "withdraw_button a = (app_status a = lit ''pending'')"

text \<open>A click on the Withdraw button of the card of \<open>a\<close>, if the page shows one.\<close>

definition click_withdraw :: "application \<Rightarrow> bool \<Rightarrow> thrown + application \<Rightarrow> my_apps_state \<Rightarrow> my_apps_state \<times> effect list" where
  "click_withdraw a confirmed r st =
     (if \<not> my_loading st \<and> a \<in> set (my_applications st) \<and> withdraw_button a
      then handleWithdraw (app_id a) confirmed r st else (st, []))"

section \<open>ProjectApplicationsPage\<close>

text \<open>The type of the \<open>status\<close> argument of \<open>handleUpdateStatus\<close>.\<close>

datatype review_status = Accepted | Rejected | Under_review

fun review_string :: "review_status \<Rightarrow> jsstring" where
  "review_string Accepted = lit ''accepted''"
| "review_string Rejected = lit ''rejected''"
| "review_string Under_review = lit ''under_review''"

record review_state =
  rv_applications :: "application list"
  rv_loading :: bool
  rv_error :: jsstring
  processingId :: "int option"

fun fetchProjectApplications :: "thrown + application list \<Rightarrow> review_state \<Rightarrow> review_state" where
  "fetchProjectApplications (Inr data) st = st\<lparr>rv_applications := data, rv_loading := False\<rparr>"
| "fetchProjectApplications (Inl err) st =
     st\<lparr>rv_error := err_message err (lit ''Failed to load applications''), rv_loading := False\<rparr>"

text \<open>\<open>handleUpdateStatus\<close>; \<open>r\<close> is the outcome of \<open>updateApplication\<close>.\<close>

definition handleUpdateStatus :: "int \<Rightarrow> review_status \<Rightarrow> thrown + application \<Rightarrow> review_state \<Rightarrow> review_state \<times> effect list" where
  "handleUpdateStatus i status r st =
     (let st1 = st\<lparr>processingId := Some i\<rparr>;
          req = UpdateApplication i (review_string status)
      in case r of
        Inr updated \<Rightarrow>
          (st1\<lparr>rv_applications := map (\<lambda>app. if app_id app = i then updated else app) (rv_applications st1),
               processingId := None\<rparr>,
           [req])
      | Inl err \<Rightarrow>
          (st1\<lparr>processingId := None\<rparr>,
           [req, Alert (err_message err (lit ''Failed to update application''))]))"

text \<open>The two sections of the page.\<close>

definition pendingApps :: "review_state \<Rightarrow> application list" where
  "pendingApps st =
     filter (\<lambda>a. app_status a = lit ''pending'' \<or> app_status a = lit ''under_review'') (rv_applications st)"

definition decidedApps :: "review_state \<Rightarrow> application list" where
  "decidedApps st =
     filter (\<lambda>a. app_status a = lit ''accepted'' \<or> app_status a = lit ''rejected''
                 \<or> app_status a = lit ''withdrawn'') (rv_applications st)"

text \<open>
  The buttons of a card in the first section: Accept, Reject, and Mark Reviewing under
  \<open>application.status === 'pending'\<close>. A card of the second section has none.
\<close>

definition pending_card_buttons :: "application \<Rightarrow> review_status list" where
  "pending_card_buttons a =
     [Accepted, Rejected] @ (if app_status a = lit ''pending'' then [Under_review] else [])"

definition review_buttons :: "application \<Rightarrow> review_status list" where
  "review_buttons a =
     (if app_status a = lit ''pending'' \<or> app_status a = lit ''under_review''
      then pending_card_buttons a else [])"

text \<open>
  A click on the button for \<open>status\<close> on the card of \<open>a\<close>, if the page shows that button and
  it is not disabled (\<open>processingId === application.id\<close>).
\<close>

definition click_review :: "application \<Rightarrow> review_status \<Rightarrow> thrown + application \<Rightarrow> review_state \<Rightarrow> review_state \<times> effect list" where
  "click_review a status r st =
     (if \<not> rv_loading st \<and> a \<in> set (pendingApps st) \<and> status \<in> set (pending_card_buttons a)
         \<and> processingId st \<noteq> Some (app_id a)
      then handleUpdateStatus (app_id a) status r st else (st, []))"

section \<open>MyCollaborationsPage\<close>

record collabs_state =
  collaborations :: "collaboration list"
  cl_loading :: bool
  cl_error :: jsstring

fun fetchCollaborations :: "thrown + collaboration list \<Rightarrow> collabs_state \<Rightarrow> collabs_state" where
  "fetchCollaborations (Inr data) st = st\<lparr>collaborations := data, cl_loading := False\<rparr>"
| "fetchCollaborations (Inl err) st =
     st\<lparr>cl_error := err_message err (lit ''Failed to load collaborations''), cl_loading := False\<rparr>"

text \<open>\<open>handleLeave\<close>; \<open>r\<close> is the outcome of \<open>leaveCollaboration\<close>.\<close>

definition handleLeave :: "int \<Rightarrow> bool \<Rightarrow> thrown + unit \<Rightarrow> collabs_state \<Rightarrow> collabs_state \<times> effect list" where
  "handleLeave i confirmed r st =
     (if \<not> confirmed then (st, [])
      else case r of
        Inr _ \<Rightarrow>
          (st\<lparr>collaborations :=
               map (\<lambda>c. if collab_id c = i then c\<lparr>collab_status := lit ''left''\<rparr> else c)
                 (collaborations st)\<rparr>,
           [LeaveCollaboration i])
      | Inl err \<Rightarrow>
          (st, [LeaveCollaboration i,
                Alert (err_message err (lit ''Failed to leave collaboration''))]))"

definition activeCollabs :: "collabs_state \<Rightarrow> collaboration list" where
  "activeCollabs st = filter (\<lambda>c. collab_status c = lit ''active'') (collaborations st)"

definition pastCollabs :: "collabs_state \<Rightarrow> collaboration list" where
  "pastCollabs st = filter (\<lambda>c. collab_status c \<noteq> lit ''active'') (collaborations st)"

text \<open>
  The Leave button: only on a card of the active section, under
  \<open>collab.role !== 'creator'\<close>. A card of the past section has no button.
\<close>

definition leave_button :: "collaboration \<Rightarrow> bool" where
  "leave_button c = (collab_status c = lit ''active'' \<and> collab_role c \<noteq> lit ''creator'')"

definition click_leave :: "collaboration \<Rightarrow> bool \<Rightarrow> thrown + unit \<Rightarrow> collabs_state \<Rightarrow> collabs_state \<times> effect list" where
  "click_leave c confirmed r st =
     (if \<not> cl_loading st \<and> c \<in> set (activeCollabs st) \<and> collab_role c \<noteq> lit ''creator''
      then handleLeave (collab_id c) confirmed r st else (st, []))"

section \<open>ConversationPage\<close>

record conv_state =
  conversation :: "conversation option"
  messages :: "message list"
  cv_loading :: bool
  cv_error :: jsstring
  newMessage :: jsstring
  sending :: bool

text \<open>\<open>data.messages || []\<close>\<close>

definition messages_or_empty :: "conversation \<Rightarrow> message list" where
  "messages_or_empty data = (case conv_messages data of None \<Rightarrow> [] | Some ms \<Rightarrow> ms)"

text \<open>
  \<open>fetchConversation\<close>; \<open>r\<close> is the outcome of \<open>getConversation\<close>, \<open>rd\<close> that of
  \<open>markAsRead\<close>. Both requests are inside one \<open>try\<close>.
\<close>

definition fetchConversation :: "int option \<Rightarrow> thrown + conversation \<Rightarrow> thrown + unit \<Rightarrow> conv_state \<Rightarrow> conv_state \<times> effect list" where
  "fetchConversation idp r rd st =
     (case r of
        Inl err \<Rightarrow>
          (st\<lparr>cv_error := err_message err (lit ''Failed to load conversation''), cv_loading := False\<rparr>,
           [GetConversation (Number idp)])
      | Inr data \<Rightarrow>
          (let st1 = st\<lparr>conversation := Some data, messages := messages_or_empty data\<rparr>
           in case rd of
                Inr _ \<Rightarrow> (st1\<lparr>cv_loading := False\<rparr>,
                          [GetConversation (Number idp), MarkAsRead (Number idp)])
              | Inl err \<Rightarrow>
                  (st1\<lparr>cv_error := err_message err (lit ''Failed to load conversation''),
                       cv_loading := False\<rparr>,
                   [GetConversation (Number idp), MarkAsRead (Number idp)])))"

text \<open>
  The polling effect: \<open>if (!id || loading) return;\<close>, otherwise an interval of 3000 ms is
  set. The effect is set up again only when one of \<open>[id, loading, messages.length]\<close> changes.
\<close>

definition poll_interval_ms :: nat where
  "poll_interval_ms = 3000"

definition poll_deps :: "int option \<Rightarrow> conv_state \<Rightarrow> int option \<times> bool \<times> nat" where
  "poll_deps idp st = (idp, cv_loading st, length (messages st))"

definition poll_timer :: "int option \<Rightarrow> conv_state \<Rightarrow> nat option" where
  "poll_timer idp st = (if idp = None \<or> cv_loading st then None else Some poll_interval_ms)"


text \<open>
  One run of the interval's callback. \<open>captured\<close> is \<open>messages.length\<close> as the closure of
  the callback holds it; \<open>r\<close> is the outcome of \<open>getConversation\<close>, \<open>rd\<close> that of
  \<open>markAsRead\<close>; the state is the one the page is in when the answer arrives, and
  \<open>setMessages(newMessages)\<close> replaces its list. The list may have changed since the
  interval was set up, by \<open>handleSend\<close> or by another poll, while this poll was under way.
\<close>

definition poll_tick :: "int option \<Rightarrow> nat \<Rightarrow> thrown + conversation \<Rightarrow> thrown + unit \<Rightarrow> conv_state \<Rightarrow> conv_state \<times> effect list" where
  "poll_tick idp captured r rd st =
     (case r of
        Inl err \<Rightarrow> (st, [GetConversation (Number idp), ConsoleError])
      | Inr data \<Rightarrow>
          (let newMessages = messages_or_empty data
           in if length newMessages > captured
              then (st\<lparr>messages := newMessages\<rparr>,
                    [GetConversation (Number idp), MarkAsRead (Number idp)]
                    @ (case rd of Inl err \<Rightarrow> [ConsoleError] | Inr _ \<Rightarrow> []))
              else (st, [GetConversation (Number idp)])))"

text \<open>
  The interval fires only while it is set. \<open>poll_fire\<close> is a poll of the interval of the
  current render that is answered before the page state changes: what its callback holds is
  the length of the list held.
\<close>

definition poll_fire :: "int option \<Rightarrow> thrown + conversation \<Rightarrow> thrown + unit \<Rightarrow> conv_state \<Rightarrow> conv_state \<times> effect list" where
  "poll_fire idp r rd st =
     (if poll_timer idp st = None then (st, [])
      else poll_tick idp (length (messages st)) r rd st)"

text \<open>
  The interval firing again and again, once for each pair of outcomes of the list, each poll
  answered before the next one starts.
\<close>

fun poll_run :: "int option \<Rightarrow> ((thrown + conversation) \<times> (thrown + unit)) list \<Rightarrow> conv_state \<Rightarrow> conv_state \<times> effect list" where
  "poll_run idp [] st = (st, [])"
| "poll_run idp ((r, rd) # rs) st =
     (let (st1, out1) = poll_fire idp r rd st;
          (st2, out2) = poll_run idp rs st1
      in (st2, out1 @ out2))"

text \<open>\<open>handleSend\<close>; \<open>r\<close> is the outcome of \<open>sendMessage\<close>.\<close>

definition handleSend :: "int option \<Rightarrow> thrown + message \<Rightarrow> conv_state \<Rightarrow> conv_state \<times> effect list" where
  "handleSend idp r st =
     (if trim (newMessage st) = [] \<or> sending st then (st, [])
      else
        (let st1 = st\<lparr>sending := True\<rparr>;
             req = SendMessage (Number idp) (trim (newMessage st))
         in case r of
              Inr m \<Rightarrow>
                (st1\<lparr>messages := messages st1 @ [m], newMessage := [], sending := False\<rparr>, [req])
            | Inl err \<Rightarrow>
                (st1\<lparr>sending := False\<rparr>,
                 [req, Alert (err_message err (lit ''Failed to send message''))])))"

definition send_disabled :: "conv_state \<Rightarrow> bool" where
  "send_disabled st = (trim (newMessage st) = [] \<or> sending st)"

section \<open>The backend operations the pages call\<close>

text \<open>
  Modelled from the spec: the backend that answers \<open>createApplication\<close> and
  \<open>updateApplication\<close> is not among the frontend sources. Its error kinds (section 7), its
  records (section 3) and its operations (section 4) are taken from the specification: the
  ApplicationLedger with the part of the CollaborationRegistry and of the ConversationGate
  that its accept transition uses.
\<close>

datatype sp_error = ValidationError | StateConflict | AuthorizationError | NotFound

datatype sp_project_status = Draft | Open | In_progress | Filled | Completed | Cancelled

datatype sp_app_status = St_pending | St_under_review | St_accepted | St_rejected | St_withdrawn

datatype sp_collab_status = Co_active | Co_completed | Co_left | Co_removed

datatype sp_event =
    ApplicationSubmitted nat
  | ApplicationTransitioned nat sp_app_status
  | CollaboratorJoined nat nat

record sp_project =
  spp_creator :: nat
  spp_status :: sp_project_status
  spp_team_size :: nat
  spp_roles :: "string list"

record sp_application =
  spa_id :: nat
  spa_project :: nat
  spa_applicant :: nat
  spa_role :: string
  spa_cover :: string
  spa_status :: sp_app_status

record sp_collaboration =
  spc_id :: nat
  spc_project :: nat
  spc_user :: nat
  spc_role :: string
  spc_status :: sp_collab_status
  spc_joined_at :: nat

record sp_conversation =
  spv_id :: nat
  spv_project :: nat

record sp_state =
  sp_projects :: "(nat \<times> sp_project) list"
  sp_applications :: "sp_application list"
  sp_collaborations :: "sp_collaboration list"
  sp_conversations :: "sp_conversation list"
  sp_events :: "sp_event list"

text \<open>Modelled from the spec: an id not yet used (the backend's id assignment is absent).\<close>

definition fresh_id :: "nat list \<Rightarrow> nat" where
  "fresh_id ids = Suc (fold max ids 0)"



text \<open>
  Modelled from the spec: the transition table of section 4.1, with the actor of each row.
\<close>

datatype sp_actor = Creator | Applicant

fun sp_table :: "sp_app_status \<Rightarrow> sp_app_status \<Rightarrow> sp_actor option" where
  "sp_table St_pending St_under_review = Some Creator"
| "sp_table St_pending St_accepted = Some Creator"
| "sp_table St_pending St_rejected = Some Creator"
| "sp_table St_pending St_withdrawn = Some Applicant"
| "sp_table St_under_review St_accepted = Some Creator"
| "sp_table St_under_review St_rejected = Some Creator"
| "sp_table St_under_review St_withdrawn = Some Applicant"
| "sp_table _ _ = None"

text \<open>
  Modelled from the spec: who may ask for a status, by the actor column of the table
  (review, accept and reject are the creator's, withdraw is the applicant's).
\<close>

fun sp_actor_of :: "sp_app_status \<Rightarrow> sp_actor option" where
  "sp_actor_of St_under_review = Some Creator"
| "sp_actor_of St_accepted = Some Creator"
| "sp_actor_of St_rejected = Some Creator"
| "sp_actor_of St_withdrawn = Some Applicant"
| "sp_actor_of St_pending = None"

text \<open>
  Modelled from the spec: \<open>join\<close> of the CollaborationRegistry, section 4.2.
\<close>

definition sp_join :: "sp_state \<Rightarrow> nat \<Rightarrow> nat \<Rightarrow> string \<Rightarrow> nat \<Rightarrow> sp_error + sp_state" where
  "sp_join st pid uid role now =
     (if list_ex (\<lambda>c. spc_project c = pid \<and> spc_user c = uid \<and> spc_status c = Co_active)
           (sp_collaborations st)
      then Inl StateConflict
      else Inr (st\<lparr>sp_collaborations := sp_collaborations st @
                   [\<lparr> spc_id = fresh_id (map spc_id (sp_collaborations st)), spc_project = pid,
                      spc_user = uid, spc_role = role, spc_status = Co_active,
                      spc_joined_at = now \<rparr>],
                 sp_events := sp_events st @ [CollaboratorJoined pid uid]\<rparr>))"

text \<open>
  Modelled from the spec: \<open>ensure\<close> of the ConversationGate, section 4.3.
\<close>

definition sp_ensure :: "sp_state \<Rightarrow> nat \<Rightarrow> sp_state" where
  "sp_ensure st pid =
     (if list_ex (\<lambda>v. spv_project v = pid) (sp_conversations st) then st
      else st\<lparr>sp_conversations := sp_conversations st @
                [\<lparr> spv_id = fresh_id (map spv_id (sp_conversations st)), spv_project = pid \<rparr>]\<rparr>)"

text \<open>Modelled from the spec: writing the new status of an Application and emitting its event.\<close>

definition sp_set_status :: "sp_state \<Rightarrow> nat \<Rightarrow> sp_app_status \<Rightarrow> sp_state" where
  "sp_set_status st aid new =
     st\<lparr>sp_applications :=
          map (\<lambda>a. if spa_id a = aid then a\<lparr>spa_status := new\<rparr> else a) (sp_applications st),
        sp_events := sp_events st @ [ApplicationTransitioned aid new]\<rparr>"

text \<open>
  Modelled from the spec: \<open>transition\<close> of the ApplicationLedger, section 4.1, the backend
  of \<open>updateApplication\<close>. A wrong actor is an AuthorizationError; accepting an accepted
  application again returns the state as it is; any other pair outside the table is a
  StateConflict; accepting is one unit with \<open>join\<close> and \<open>ensure\<close>, so that a failing
  \<open>join\<close> leaves nothing changed.
\<close>

definition sp_transition :: "sp_state \<Rightarrow> nat \<Rightarrow> sp_app_status \<Rightarrow> nat \<Rightarrow> nat \<Rightarrow> sp_error + sp_state" where
  "sp_transition st aid new actor now =
     (case find (\<lambda>a. spa_id a = aid) (sp_applications st) of
        None \<Rightarrow> Inl NotFound
      | Some a \<Rightarrow>
          (case map_of (sp_projects st) (spa_project a) of
             None \<Rightarrow> Inl NotFound
           | Some p \<Rightarrow>
               (case sp_actor_of new of
                  None \<Rightarrow> Inl StateConflict
                | Some who \<Rightarrow>
                    if actor \<noteq> (case who of Creator \<Rightarrow> spp_creator p | Applicant \<Rightarrow> spa_applicant a)
                    then Inl AuthorizationError
                    else if spa_status a = St_accepted \<and> new = St_accepted then Inr st
                    else if sp_table (spa_status a) new = None then Inl StateConflict
                    else if new = St_accepted
                    then (case sp_join st (spa_project a) (spa_applicant a) (spa_role a) now of
                            Inl e \<Rightarrow> Inl e
                          | Inr st1 \<Rightarrow> Inr (sp_set_status (sp_ensure st1 (spa_project a)) aid new))
                    else Inr (sp_set_status st aid new))))"

section \<open>The transition table read on the status strings\<close>

text \<open>
  The pages hold a status as a string; the table of section 4.1 of the specification is
  stated on the five status names. \<open>table_allows who s t\<close> says that the table has the row
  \<open>s -> t\<close> for the actor \<open>who\<close>; a string that is not a status name has no row.
\<close>

definition parse_status :: "jsstring \<Rightarrow> sp_app_status option" where
  "parse_status s =
     (if s = lit ''pending'' then Some St_pending
      else if s = lit ''under_review'' then Some St_under_review
      else if s = lit ''accepted'' then Some St_accepted
      else if s = lit ''rejected'' then Some St_rejected
      else if s = lit ''withdrawn'' then Some St_withdrawn
      else None)"

definition table_allows :: "sp_actor \<Rightarrow> jsstring \<Rightarrow> jsstring \<Rightarrow> bool" where
  "table_allows who s t =
     (case parse_status s of
        None \<Rightarrow> False
      | Some s' \<Rightarrow> (case parse_status t of None \<Rightarrow> False | Some t' \<Rightarrow> sp_table s' t' = Some who))"

fun table_path :: "jsstring \<Rightarrow> jsstring list \<Rightarrow> bool" where
  "table_path s [] = True"
| "table_path s (t # ts) = ((table_allows Creator s t \<or> table_allows Applicant s t) \<and> table_path t ts)"

text \<open>
  The status changes the two pages can ask for on an application shown with a given status:
  one of the creator's buttons, or the applicant's Withdraw. \<open>requested_path a ts\<close>: the
  statuses \<open>ts\<close> are asked for one after the other, each on the card as it is shown once the
  one before has been granted.
\<close>

definition offered_step :: "application \<Rightarrow> jsstring \<Rightarrow> bool" where
  "offered_step a t =
     (t \<in> set (map review_string (review_buttons a)) \<or> (withdraw_button a \<and> t = lit ''withdrawn''))"

fun requested_path :: "application \<Rightarrow> jsstring list \<Rightarrow> bool" where
  "requested_path a [] = True"
| "requested_path a (t # ts) = (offered_step a t \<and> requested_path (a\<lparr>app_status := t\<rparr>) ts)"

section \<open>Example inputs\<close>

definition ex_app :: "jsstring \<Rightarrow> application" where
  "ex_app s = \<lparr> app_id = 7, app_project_id = 3, applicant_id = 5, cover_letter = None,
     proposed_role = None, app_status = s \<rparr>"

definition ex_review_state :: review_state where
  "ex_review_state = \<lparr> rv_applications = [ex_app (lit ''pending'')], rv_loading = False,
     rv_error = [], processingId = None \<rparr>"

definition ex_my_apps_state :: "jsstring \<Rightarrow> my_apps_state" where
  "ex_my_apps_state s = \<lparr> my_applications = [ex_app s], my_loading = False, my_error = [] \<rparr>"

definition ex_collab :: "int \<Rightarrow> jsstring \<Rightarrow> collaboration" where
  "ex_collab i role = \<lparr> collab_id = i, collab_project_id = 3, collab_user_id = 5,
     collab_role = role, collab_status = lit ''active'' \<rparr>"

definition ex_collabs_state :: collabs_state where
  "ex_collabs_state = \<lparr> collaborations = [ex_collab 1 (lit ''creator''), ex_collab 2 (lit ''collaborator'')],
     cl_loading = False, cl_error = [] \<rparr>"

definition ex_msg :: "int \<Rightarrow> jsstring \<Rightarrow> message" where
  "ex_msg i c = \<lparr> msg_id = i, conversation_id = 4, sender_id = 5, content = c \<rparr>"

definition ex_conversation :: "message list \<Rightarrow> conversation" where
  "ex_conversation ms = \<lparr> conv_id = 4, conv_type = lit ''project_team'', conv_messages = Some ms \<rparr>"

definition ex_conv_state :: "jsstring \<Rightarrow> bool \<Rightarrow> conv_state" where
  "ex_conv_state typed busy = \<lparr> conversation = Some (ex_conversation [ex_msg 1 (lit ''a'')]),
     messages = [ex_msg 1 (lit ''a'')], cv_loading = False, cv_error = [],
     newMessage = typed, sending = busy \<rparr>"

definition ex_project :: "jsstring list \<Rightarrow> project" where
  "ex_project roles = \<lparr> proj_id = 3, creator_id = 9, title = lit ''Compiler'',
     roles_needed = roles, proj_status = lit ''open'' \<rparr>"

definition ex_user :: user where
  "ex_user = \<lparr> user_id = 5, email = lit ''a@b.c'' \<rparr>"

definition ex_cover :: jsstring where
  "ex_cover = replicate 60 0x61"

definition ex_detail_state :: "jsstring \<Rightarrow> detail_state" where
  "ex_detail_state cover = \<lparr> project = Some (ex_project [lit ''Backend'', lit ''Frontend'']),
     loading = False, error = [], showApplyModal = True, selectedRole = lit ''Backend'',
     coverMessage = cover, applying = False, applyError = [] \<rparr>"

definition ex_project_no_roles :: project where
  "ex_project_no_roles = \<lparr> proj_id = 8, creator_id = 9, title = lit ''Parser'',
     roles_needed = [], proj_status = lit ''open'' \<rparr>"

definition ex_events_route_change :: "detail_event list" where
  "ex_events_route_change =
     [RouteChange (Some (Num 8)) (Inr ex_project_no_roles), ClickApply, TypeCover ex_cover,
      ClickSubmit (Inr (ex_app (lit ''pending'')))]"

definition ex_sp_project :: "sp_project_status \<Rightarrow> sp_project" where
  "ex_sp_project s = \<lparr> spp_creator = 9, spp_status = s, spp_team_size = 4,
     spp_roles = [''Backend'', ''Frontend''] \<rparr>"

definition ex_sp_app :: "sp_app_status \<Rightarrow> sp_application" where
  "ex_sp_app s = \<lparr> spa_id = 7, spa_project = 3, spa_applicant = 5, spa_role = ''Backend'',
     spa_cover = replicate 60 CHR ''a'', spa_status = s \<rparr>"

definition ex_sp_state :: "sp_project_status \<Rightarrow> sp_application list \<Rightarrow> sp_state" where
  "ex_sp_state s apps = \<lparr> sp_projects = [(3, ex_sp_project s)], sp_applications = apps,
     sp_collaborations = [], sp_conversations = [], sp_events = [] \<rparr>"

definition ex_sp_accepted_state :: sp_state where
  "ex_sp_accepted_state = \<lparr> sp_projects = [(3, ex_sp_project Open)],
     sp_applications = [ex_sp_app St_accepted],
     sp_collaborations = [\<lparr> spc_id = 1, spc_project = 3, spc_user = 5, spc_role = ''Backend'',
                            spc_status = Co_active, spc_joined_at = 100 \<rparr>],
     sp_conversations = [\<lparr> spv_id = 1, spv_project = 3 \<rparr>],
     sp_events = [CollaboratorJoined 3 5, ApplicationTransitioned 7 St_accepted] \<rparr>"

section \<open>Status names\<close>

lemma status_lits_distinct [simp]:
  "lit ''pending'' \<noteq> lit ''under_review''" "lit ''pending'' \<noteq> lit ''accepted''"
  "lit ''pending'' \<noteq> lit ''rejected''" "lit ''pending'' \<noteq> lit ''withdrawn''"
  "lit ''under_review'' \<noteq> lit ''pending''" "lit ''under_review'' \<noteq> lit ''accepted''"
  "lit ''under_review'' \<noteq> lit ''rejected''" "lit ''under_review'' \<noteq> lit ''withdrawn''"
  "lit ''accepted'' \<noteq> lit ''pending''" "lit ''accepted'' \<noteq> lit ''under_review''"
  "lit ''accepted'' \<noteq> lit ''rejected''" "lit ''accepted'' \<noteq> lit ''withdrawn''"
  "lit ''rejected'' \<noteq> lit ''pending''" "lit ''rejected'' \<noteq> lit ''under_review''"
  "lit ''rejected'' \<noteq> lit ''accepted''" "lit ''rejected'' \<noteq> lit ''withdrawn''"
  "lit ''withdrawn'' \<noteq> lit ''pending''" "lit ''withdrawn'' \<noteq> lit ''under_review''"
  "lit ''withdrawn'' \<noteq> lit ''accepted''" "lit ''withdrawn'' \<noteq> lit ''rejected''"
  by (simp_all add: lit_def)

lemma parse_status_simps [simp]:
  "parse_status (lit ''pending'') = Some St_pending"
  "parse_status (lit ''under_review'') = Some St_under_review"
  "parse_status (lit ''accepted'') = Some St_accepted"
  "parse_status (lit ''rejected'') = Some St_rejected"
  "parse_status (lit ''withdrawn'') = Some St_withdrawn"
  by (simp_all add: parse_status_def)

lemma review_buttons_cases:
  "review_buttons a =
     (if app_status a = lit ''pending'' then [Accepted, Rejected, Under_review]
      else if app_status a = lit ''under_review'' then [Accepted, Rejected] else [])"
  by (simp add: review_buttons_def pending_card_buttons_def)

lemma creator_moves:
  assumes "t \<in> set (review_buttons a)"
  shows "(app_status a = lit ''pending'' \<and> t \<in> {Under_review, Accepted, Rejected})
         \<or> (app_status a = lit ''under_review'' \<and> t \<in> {Accepted, Rejected})"
  using assms by (auto simp: review_buttons_cases split: if_splits)

lemma creator_moves_in_table:
  assumes "t \<in> set (review_buttons a)"
  shows "table_allows Creator (app_status a) (review_string t)"
  using creator_moves [OF assms] by (auto simp: table_allows_def)

lemma withdraw_in_table:
  assumes "withdraw_button a"
  shows "table_allows Applicant (app_status a) (lit ''withdrawn'')"
  using assms by (simp add: withdraw_button_def table_allows_def)

lemma terminal_no_action:
  assumes "app_status a \<in> {lit ''accepted'', lit ''rejected'', lit ''withdrawn''}"
  shows "review_buttons a = [] \<and> \<not> withdraw_button a"
  using assms by (auto simp: review_buttons_cases withdraw_button_def)

lemma offered_step_table:
  assumes "offered_step a t"
  shows "table_allows Creator (app_status a) t \<or> table_allows Applicant (app_status a) t"
  using assms creator_moves_in_table withdraw_in_table
  by (auto simp: offered_step_def)

lemma requested_path_table:
  "requested_path a ts \<Longrightarrow> table_path (app_status a) ts"
proof (induction ts arbitrary: a)
  case Nil
  show ?case by simp
next
  case (Cons t ts)
  from Cons.prems have step: "offered_step a t" and rest: "requested_path (a\<lparr>app_status := t\<rparr>) ts"
    by simp_all
  from Cons.IH [OF rest] have "table_path t ts" by simp
  with offered_step_table [OF step] show ?case by simp
qed

lemma click_review_request:
  assumes "UpdateApplication i s \<in> set (snd (click_review a t r st))"
  shows "i = app_id a \<and> s = review_string t \<and> t \<in> set (review_buttons a)"
proof -
  have on: "\<not> rv_loading st \<and> a \<in> set (pendingApps st) \<and> t \<in> set (pending_card_buttons a)
      \<and> processingId st \<noteq> Some (app_id a)"
    using assms by (auto simp: click_review_def split: if_splits)
  then have "app_status a = lit ''pending'' \<or> app_status a = lit ''under_review''"
    by (auto simp: pendingApps_def)
  with on have btn: "t \<in> set (review_buttons a)" by (auto simp: review_buttons_def)
  from assms on have "UpdateApplication i s \<in> set (snd (handleUpdateStatus (app_id a) t r st))"
    by (simp add: click_review_def)
  then have "i = app_id a \<and> s = review_string t"
    by (cases r) (auto simp: handleUpdateStatus_def Let_def)
  with btn show ?thesis by simp
qed

lemma click_withdraw_request:
  assumes "UpdateApplication i s \<in> set (snd (click_withdraw a c r st))"
  shows "i = app_id a \<and> s = lit ''withdrawn'' \<and> withdraw_button a"
proof -
  have on: "\<not> my_loading st \<and> a \<in> set (my_applications st) \<and> withdraw_button a"
    using assms by (auto simp: click_withdraw_def split: if_splits)
  with assms have "UpdateApplication i s \<in> set (snd (handleWithdraw (app_id a) c r st))"
    by (simp add: click_withdraw_def)
  then have "i = app_id a \<and> s = lit ''withdrawn''"
    by (cases r) (auto simp: handleWithdraw_def split: if_splits)
  with on show ?thesis by simp
qed

section \<open>C1: the pages ask only for transitions of the table\<close>

text \<open>
  Claim C1. The status changes the pages can ask for follow the transition table of section
  4.1. A request \<open>updateApplication\<close> sent by a click on a review button of the creator's page
  is for the application of that card and moves it from pending to under_review, accepted or
  rejected, or from under_review to accepted or rejected, each a row of the table for the
  creator. An application shown as accepted, rejected or withdrawn has no review button and
  no Withdraw button, and a click on its card sends nothing and changes nothing. Every
  sequence of statuses asked for one after the other on an application, each granted before
  the next is asked, is a path through the table.
\<close>

theorem application_status_path_valid:
  "(UpdateApplication i s \<in> set (snd (click_review a t r st)) \<longrightarrow>
      i = app_id a \<and> s = review_string t \<and> table_allows Creator (app_status a) s
      \<and> (app_status a = lit ''pending'' \<and> t \<in> {Under_review, Accepted, Rejected}
         \<or> app_status a = lit ''under_review'' \<and> t \<in> {Accepted, Rejected}))
   \<and> (app_status b \<in> {lit ''accepted'', lit ''rejected'', lit ''withdrawn''} \<longrightarrow>
        review_buttons b = [] \<and> \<not> withdraw_button b
        \<and> click_review b t' r' st' = (st', []) \<and> click_withdraw b c r'' st'' = (st'', []))
   \<and> (requested_path a ts \<longrightarrow> table_path (app_status a) ts)"
proof (intro conjI impI)
  assume req: "UpdateApplication i s \<in> set (snd (click_review a t r st))"
  from click_review_request [OF req]
  have 1: "i = app_id a" and 2: "s = review_string t" and 3: "t \<in> set (review_buttons a)"
    by simp_all
  show "i = app_id a" by (rule 1)
  show "s = review_string t" by (rule 2)
  show "table_allows Creator (app_status a) s"
    using creator_moves_in_table [OF 3] 2 by simp
  show "app_status a = lit ''pending'' \<and> t \<in> {Under_review, Accepted, Rejected}
         \<or> app_status a = lit ''under_review'' \<and> t \<in> {Accepted, Rejected}"
    by (rule creator_moves [OF 3])
next
  assume terminal: "app_status b \<in> {lit ''accepted'', lit ''rejected'', lit ''withdrawn''}"
  from terminal_no_action [OF terminal]
  show "review_buttons b = []" and nw: "\<not> withdraw_button b" by simp_all
  from terminal have "b \<notin> set (pendingApps st')"
    by (auto simp: pendingApps_def)
  then show "click_review b t' r' st' = (st', [])"
    by (simp add: click_review_def)
  from nw show "click_withdraw b c r'' st'' = (st'', [])"
    by (simp add: click_withdraw_def)
next
  assume "requested_path a ts"
  then show "table_path (app_status a) ts" by (rule requested_path_table)
qed

theorem application_status_path_valid_witness:
  "UpdateApplication 7 (lit ''under_review'')
     \<in> set (snd (click_review (ex_app (lit ''pending'')) Under_review
                  (Inr (ex_app (lit ''under_review''))) ex_review_state))
   \<and> table_allows Creator (lit ''pending'') (lit ''under_review'')
   \<and> app_status (ex_app (lit ''accepted'')) \<in> {lit ''accepted'', lit ''rejected'', lit ''withdrawn''}
   \<and> review_buttons (ex_app (lit ''accepted'')) = []
   \<and> requested_path (ex_app (lit ''pending'')) [lit ''under_review'', lit ''accepted'']
   \<and> table_path (lit ''pending'') [lit ''under_review'', lit ''accepted'']"
proof -
  let ?a = "ex_app (lit ''pending'')" and ?b = "ex_app (lit ''accepted'')"
  let ?ts = "[lit ''under_review'', lit ''accepted'']"
  note inst = application_status_path_valid [of 7 "lit ''under_review''" ?a Under_review
      "Inr (ex_app (lit ''under_review''))" ex_review_state ?b Accepted "Inr ?b" ex_review_state
      True "Inr ?b" "ex_my_apps_state (lit ''accepted'')" ?ts]
  have h1: "UpdateApplication 7 (lit ''under_review'')
     \<in> set (snd (click_review ?a Under_review (Inr (ex_app (lit ''under_review''))) ex_review_state))"
    by (simp add: click_review_def pendingApps_def pending_card_buttons_def ex_review_state_def
        ex_app_def handleUpdateStatus_def)
  have h2: "app_status ?b \<in> {lit ''accepted'', lit ''rejected'', lit ''withdrawn''}"
    by (simp add: ex_app_def)
  have h3: "requested_path ?a ?ts"
    by (simp add: offered_step_def review_buttons_cases withdraw_button_def ex_app_def)
  from inst h1 have c1: "table_allows Creator (app_status ?a) (lit ''under_review'')" by blast
  from inst h2 have c2: "review_buttons ?b = []" by blast
  from inst h3 have c3: "table_path (app_status ?a) ?ts" by blast
  from c1 c3 have "table_allows Creator (lit ''pending'') (lit ''under_review'')"
    and "table_path (lit ''pending'') ?ts" by (simp_all add: ex_app_def)
  with h1 h2 h3 c2 show ?thesis by blast
qed

section \<open>C5: Withdraw is offered for pending applications only\<close>

text \<open>
  Claim C5 says that the applicant can withdraw from under_review exactly as from pending.
  The card of MyApplicationsPage renders the Withdraw button under
  \<open>application.status === 'pending'\<close>: an application shown as under_review has no
  Withdraw button, and a click on its card sends no request, while a pending one has the
  button.
\<close>

theorem withdraw_under_review_counterexample:
  "app_status (ex_app (lit ''under_review'')) = lit ''under_review''
   \<and> \<not> withdraw_button (ex_app (lit ''under_review''))
   \<and> click_withdraw (ex_app (lit ''under_review'')) True (Inr (ex_app (lit ''withdrawn'')))
        (ex_my_apps_state (lit ''under_review''))
      = (ex_my_apps_state (lit ''under_review''), [])
   \<and> withdraw_button (ex_app (lit ''pending''))"
  by (simp add: ex_app_def withdraw_button_def click_withdraw_def)

text \<open>
  Claim C5 as amended. The Withdraw action is offered exactly for the applications shown as
  pending. For any other status, under_review included, the card sends nothing and leaves
  the page state as it is; for a pending application of the loaded page a confirmed click
  sends \<open>updateApplication(id, {status: 'withdrawn'})\<close>.
\<close>

theorem withdraw_only_from_pending:
  "(withdraw_button a \<longleftrightarrow> app_status a = lit ''pending'')
   \<and> (app_status a \<noteq> lit ''pending'' \<longrightarrow> click_withdraw a c r st = (st, []))
   \<and> (app_status b = lit ''pending'' \<and> \<not> my_loading st' \<and> b \<in> set (my_applications st') \<longrightarrow>
        snd (click_withdraw b True r' st')
        = UpdateApplication (app_id b) (lit ''withdrawn'')
          # (case r' of Inr _ \<Rightarrow> []
             | Inl err \<Rightarrow> [Alert (err_message err (lit ''Failed to withdraw application''))]))"
  by (cases r') (simp_all add: withdraw_button_def click_withdraw_def handleWithdraw_def)

theorem withdraw_only_from_pending_witness:
  "app_status (ex_app (lit ''under_review'')) \<noteq> lit ''pending''
   \<and> click_withdraw (ex_app (lit ''under_review'')) True (Inr (ex_app (lit ''withdrawn'')))
        (ex_my_apps_state (lit ''under_review''))
      = (ex_my_apps_state (lit ''under_review''), [])
   \<and> app_status (ex_app (lit ''pending'')) = lit ''pending''
   \<and> \<not> my_loading (ex_my_apps_state (lit ''pending''))
   \<and> ex_app (lit ''pending'') \<in> set (my_applications (ex_my_apps_state (lit ''pending'')))
   \<and> snd (click_withdraw (ex_app (lit ''pending'')) True (Inr (ex_app (lit ''withdrawn'')))
        (ex_my_apps_state (lit ''pending'')))
      = [UpdateApplication 7 (lit ''withdrawn'')]"
proof -
  let ?u = "ex_app (lit ''under_review'')" and ?p = "ex_app (lit ''pending'')"
  note inst = withdraw_only_from_pending [of ?u True "Inr (ex_app (lit ''withdrawn''))"
      "ex_my_apps_state (lit ''under_review'')" ?p "ex_my_apps_state (lit ''pending'')"
      "Inr (ex_app (lit ''withdrawn''))"]
  have h1: "app_status ?u \<noteq> lit ''pending''" by (simp add: ex_app_def)
  have h2: "app_status ?p = lit ''pending'' \<and> \<not> my_loading (ex_my_apps_state (lit ''pending''))
      \<and> ?p \<in> set (my_applications (ex_my_apps_state (lit ''pending'')))"
    by (simp add: ex_app_def ex_my_apps_state_def)
  from inst h1 have c1: "click_withdraw ?u True (Inr (ex_app (lit ''withdrawn'')))
        (ex_my_apps_state (lit ''under_review'')) = (ex_my_apps_state (lit ''under_review''), [])"
    by blast
  from inst h2 have "snd (click_withdraw ?p True (Inr (ex_app (lit ''withdrawn'')))
        (ex_my_apps_state (lit ''pending'')))
      = UpdateApplication (app_id ?p) (lit ''withdrawn'')
          # (case (Inr (ex_app (lit ''withdrawn'')) :: thrown + application) of Inr _ \<Rightarrow> []
             | Inl err \<Rightarrow> [Alert (err_message err (lit ''Failed to withdraw application''))])"
    by blast
  then have c2: "snd (click_withdraw ?p True (Inr (ex_app (lit ''withdrawn'')))
        (ex_my_apps_state (lit ''pending''))) = [UpdateApplication 7 (lit ''withdrawn'')]"
    by (simp add: ex_app_def)
  from h1 h2 c1 c2 show ?thesis by blast
qed

section \<open>C7: no Leave action on a creator's collaboration\<close>

lemma click_leave_request:
  assumes "LeaveCollaboration i \<in> set (snd (click_leave d confirmed r st))"
  shows "i = collab_id d \<and> collab_role d \<noteq> lit ''creator'' \<and> d \<in> set (collaborations st)
         \<and> collab_status d = lit ''active''"
proof -
  have on: "\<not> cl_loading st \<and> d \<in> set (activeCollabs st) \<and> collab_role d \<noteq> lit ''creator''"
    using assms by (auto simp: click_leave_def split: if_splits)
  with assms have "LeaveCollaboration i \<in> set (snd (handleLeave (collab_id d) confirmed r st))"
    by (simp add: click_leave_def)
  then have "i = collab_id d"
    by (cases r) (auto simp: handleLeave_def split: if_splits)
  with on show ?thesis by (auto simp: activeCollabs_def)
qed

text \<open>
  Claim C7. For a collaboration whose role is \<open>creator\<close> the Leave button is not rendered
  and a click on its card sends nothing and changes nothing. Every \<open>leaveCollaboration\<close>
  request the page sends carries the id of the clicked card, which is an active card whose
  role is not \<open>creator\<close>; with collaboration ids distinct, no click on any card sends
  \<open>leaveCollaboration\<close> with the id of a creator's collaboration of the page.
\<close>

theorem creator_never_leaves:
  "(collab_role c = lit ''creator'' \<longrightarrow>
      \<not> leave_button c \<and> click_leave c confirmed r st = (st, []))
   \<and> (LeaveCollaboration i \<in> set (snd (click_leave d confirmed' r' st')) \<longrightarrow>
        i = collab_id d \<and> collab_role d \<noteq> lit ''creator'' \<and> leave_button d)
   \<and> (collab_role c = lit ''creator'' \<and> c \<in> set (collaborations st')
        \<and> distinct (map collab_id (collaborations st')) \<longrightarrow>
        LeaveCollaboration (collab_id c) \<notin> set (snd (click_leave d confirmed' r' st')))"
proof (intro conjI impI)
  assume cr: "collab_role c = lit ''creator''"
  then show "\<not> leave_button c" by (simp add: leave_button_def)
  from cr show "click_leave c confirmed r st = (st, [])" by (simp add: click_leave_def)
next
  assume req: "LeaveCollaboration i \<in> set (snd (click_leave d confirmed' r' st'))"
  from click_leave_request [OF req]
  show "i = collab_id d" and "collab_role d \<noteq> lit ''creator''" and "leave_button d"
    by (simp_all add: leave_button_def)
next
  assume h: "collab_role c = lit ''creator'' \<and> c \<in> set (collaborations st')
        \<and> distinct (map collab_id (collaborations st'))"
  show "LeaveCollaboration (collab_id c) \<notin> set (snd (click_leave d confirmed' r' st'))"
  proof
    assume "LeaveCollaboration (collab_id c) \<in> set (snd (click_leave d confirmed' r' st'))"
    from click_leave_request [OF this]
    have same: "collab_id c = collab_id d" and nc: "collab_role d \<noteq> lit ''creator''"
      and din: "d \<in> set (collaborations st')" by simp_all
    from h have "inj_on collab_id (set (collaborations st'))"
      by (simp add: distinct_map)
    with same din h have "c = d" by (auto dest: inj_onD)
    with nc h show False by simp
  qed
qed

theorem creator_never_leaves_witness:
  "collab_role (ex_collab 1 (lit ''creator'')) = lit ''creator''
   \<and> click_leave (ex_collab 1 (lit ''creator'')) True (Inr ()) ex_collabs_state = (ex_collabs_state, [])
   \<and> LeaveCollaboration 2 \<in> set (snd (click_leave (ex_collab 2 (lit ''collaborator'')) True (Inr ()) ex_collabs_state))
   \<and> leave_button (ex_collab 2 (lit ''collaborator''))
   \<and> ex_collab 1 (lit ''creator'') \<in> set (collaborations ex_collabs_state)
   \<and> distinct (map collab_id (collaborations ex_collabs_state))
   \<and> LeaveCollaboration 1 \<notin> set (snd (click_leave (ex_collab 2 (lit ''collaborator'')) True (Inr ()) ex_collabs_state))"
proof -
  let ?c = "ex_collab 1 (lit ''creator'')" and ?d = "ex_collab 2 (lit ''collaborator'')"
  note inst = creator_never_leaves [of ?c True "Inr ()" ex_collabs_state 2 ?d True "Inr ()" ex_collabs_state]
  have ne: "lit ''collaborator'' \<noteq> lit ''creator''" by (simp add: lit_def)
  have h1: "collab_role ?c = lit ''creator''" by (simp add: ex_collab_def)
  have h2: "LeaveCollaboration 2 \<in> set (snd (click_leave ?d True (Inr ()) ex_collabs_state))"
    using ne by (simp add: click_leave_def activeCollabs_def ex_collabs_state_def ex_collab_def
        handleLeave_def)
  have h3: "?c \<in> set (collaborations ex_collabs_state)
      \<and> distinct (map collab_id (collaborations ex_collabs_state))"
    by (simp add: ex_collabs_state_def ex_collab_def)
  from inst h1 have c1: "click_leave ?c True (Inr ()) ex_collabs_state = (ex_collabs_state, [])"
    by blast
  from inst h2 have c2: "leave_button ?d" by blast
  from inst h1 h3 have "LeaveCollaboration (collab_id ?c)
      \<notin> set (snd (click_leave ?d True (Inr ()) ex_collabs_state))" by blast
  then have c3: "LeaveCollaboration 1 \<notin> set (snd (click_leave ?d True (Inr ()) ex_collabs_state))"
    by (simp add: ex_collab_def)
  from h1 h2 h3 c1 c2 c3 show ?thesis by blast
qed

section \<open>C8: a failing poll is silent and polling goes on\<close>

text \<open>
  Claim C8. When the \<open>getConversation\<close> of a poll throws, the callback only logs to the
  console: the page state is returned as it is, so the error shown and the message list are
  unchanged and no alert is raised. The dependencies of the polling effect are unchanged, so
  the interval stays as it was set, every 3000 ms while the page has its route parameter and
  has finished loading, and the polls that follow run as if the failing one had not happened.
\<close>

theorem poll_failure_silent:
  "poll_tick idp n (Inl err) rd st = (st, [GetConversation (Number idp), ConsoleError])
   \<and> cv_error (fst (poll_fire idp (Inl err) rd st)) = cv_error st
   \<and> messages (fst (poll_fire idp (Inl err) rd st)) = messages st
   \<and> Alert m \<notin> set (snd (poll_fire idp (Inl err) rd st))
   \<and> poll_deps idp (fst (poll_fire idp (Inl err) rd st)) = poll_deps idp st
   \<and> poll_timer idp (fst (poll_fire idp (Inl err) rd st)) = poll_timer idp st
   \<and> (idp \<noteq> None \<and> \<not> cv_loading st \<longrightarrow>
        poll_timer idp (fst (poll_fire idp (Inl err) rd st)) = Some 3000)
   \<and> fst (poll_run idp ((Inl err, rd) # rs) st) = fst (poll_run idp rs st)"
  by (auto simp: poll_fire_def poll_tick_def poll_timer_def poll_interval_ms_def
      split: prod.splits)

theorem poll_failure_silent_witness:
  "Some 4 \<noteq> (None :: int option) \<and> \<not> cv_loading (ex_conv_state [] False)
   \<and> poll_timer (Some 4) (fst (poll_fire (Some 4) (Inl (Error (lit ''Network error''))) (Inr ())
        (ex_conv_state [] False))) = Some 3000
   \<and> poll_fire (Some 4) (Inl (Error (lit ''Network error''))) (Inr ()) (ex_conv_state [] False)
      = (ex_conv_state [] False, [GetConversation (Num 4), ConsoleError])"
proof -
  let ?st = "ex_conv_state [] False" and ?e = "Error (lit ''Network error'')"
  note inst = poll_failure_silent [where idp = "Some 4" and n = "length (messages ?st)" and err = ?e and rd = "Inr ()"
      and st = ?st and m = "[]" and rs = "[]"]
  have h: "Some 4 \<noteq> (None :: int option) \<and> \<not> cv_loading ?st"
    by (simp add: ex_conv_state_def)
  from inst h have c1: "poll_timer (Some 4) (fst (poll_fire (Some 4) (Inl ?e) (Inr ()) ?st)) = Some 3000"
    by blast
  from inst have "poll_tick (Some 4) (length (messages ?st)) (Inl ?e) (Inr ()) ?st
      = (?st, [GetConversation (Number (Some 4)), ConsoleError])" by blast
  with h have c2: "poll_fire (Some 4) (Inl ?e) (Inr ()) ?st = (?st, [GetConversation (Num 4), ConsoleError])"
    by (simp add: poll_fire_def poll_timer_def)
  from h c1 c2 show ?thesis by blast
qed

section \<open>C6: what \<open>handleSend\<close> sends\<close>

lemma dropWhile_all_iff: "(\<forall>x\<in>set (dropWhile P xs). P x) \<longleftrightarrow> (\<forall>x\<in>set xs. P x)"
proof
  assume all: "\<forall>x\<in>set (dropWhile P xs). P x"
  have "dropWhile P xs = []"
  proof (rule ccontr)
    assume ne: "dropWhile P xs \<noteq> []"
    then have "\<not> P (hd (dropWhile P xs))" by (rule hd_dropWhile)
    moreover from ne have "hd (dropWhile P xs) \<in> set (dropWhile P xs)" by (rule hd_in_set)
    ultimately show False using all by blast
  qed
  then show "\<forall>x\<in>set xs. P x" by (simp add: dropWhile_eq_Nil_conv)
next
  assume "\<forall>x\<in>set xs. P x"
  then show "\<forall>x\<in>set (dropWhile P xs). P x" by (blast dest: set_dropWhileD)
qed

lemma trim_empty_iff: "trim s = [] \<longleftrightarrow> (\<forall>c\<in>set s. is_ws c)"
proof -
  have "trim s = [] \<longleftrightarrow> dropWhile is_ws (rev (dropWhile is_ws s)) = []"
    by (simp add: trim_def)
  also have "\<dots> \<longleftrightarrow> (\<forall>x\<in>set (dropWhile is_ws s). is_ws x)"
    by (simp add: dropWhile_eq_Nil_conv)
  also have "\<dots> \<longleftrightarrow> (\<forall>c\<in>set s. is_ws c)" by (rule dropWhile_all_iff)
  finally show ?thesis .
qed

text \<open>
  Claim C6 says that for non-empty content the trimmed content is sent. \<open>handleSend\<close>
  returns at once under \<open>!newMessage.trim() || sending\<close>: while an earlier send is under
  way, content that is not blank is not sent.
\<close>

theorem send_while_sending_counterexample:
  "newMessage (ex_conv_state (lit ''hi'') True) \<noteq> []
   \<and> trim (newMessage (ex_conv_state (lit ''hi'') True)) = lit ''hi''
   \<and> handleSend (Some 4) (Inr (ex_msg 2 (lit ''hi''))) (ex_conv_state (lit ''hi'') True)
      = (ex_conv_state (lit ''hi'') True, [])"
  by (simp add: ex_conv_state_def handleSend_def trim_def is_ws_def lit_def)

text \<open>
  Claim C6 as amended. For content that is empty or consists of white space only,
  \<open>handleSend\<close> sends no request and leaves the state, the message list included, as it
  is. While a send is under way it does the same, whatever the content. For any other
  content, when no send is under way, it sends \<open>sendMessage\<close> with the trimmed content,
  which is not empty; the returned message is appended to the list and the input is cleared,
  or the failure is shown in an alert.
\<close>

theorem send_requires_content:
  "((\<forall>c\<in>set (newMessage st). is_ws c) \<longrightarrow> handleSend idp r st = (st, []))
   \<and> (sending sb \<longrightarrow> handleSend idb rb sb = (sb, []))
   \<and> (\<not> (\<forall>c\<in>set (newMessage sc). is_ws c) \<and> \<not> sending sc \<longrightarrow>
        handleSend idc rc sc
        = (case rc of
             Inr m \<Rightarrow> (sc\<lparr>messages := messages sc @ [m], newMessage := [], sending := False\<rparr>,
                       [SendMessage (Number idc) (trim (newMessage sc))])
           | Inl err \<Rightarrow> (sc\<lparr>sending := False\<rparr>,
                         [SendMessage (Number idc) (trim (newMessage sc)),
                          Alert (err_message err (lit ''Failed to send message''))]))
        \<and> trim (newMessage sc) \<noteq> [])"
proof (intro conjI impI)
  assume "\<forall>c\<in>set (newMessage st). is_ws c"
  then have "trim (newMessage st) = []" by (simp add: trim_empty_iff)
  then show "handleSend idp r st = (st, [])" by (simp add: handleSend_def)
next
  assume "sending sb"
  then show "handleSend idb rb sb = (sb, [])" by (simp add: handleSend_def)
next
  assume h: "\<not> (\<forall>c\<in>set (newMessage sc). is_ws c) \<and> \<not> sending sc"
  then show ne: "trim (newMessage sc) \<noteq> []" by (simp add: trim_empty_iff)
  from h ne show "handleSend idc rc sc
        = (case rc of
             Inr m \<Rightarrow> (sc\<lparr>messages := messages sc @ [m], newMessage := [], sending := False\<rparr>,
                       [SendMessage (Number idc) (trim (newMessage sc))])
           | Inl err \<Rightarrow> (sc\<lparr>sending := False\<rparr>,
                         [SendMessage (Number idc) (trim (newMessage sc)),
                          Alert (err_message err (lit ''Failed to send message''))]))"
    by (cases rc) (simp_all add: handleSend_def Let_def)
qed

theorem send_requires_content_witness:
  "trim (newMessage (ex_conv_state (lit ''   '') False)) = []
   \<and> handleSend (Some 4) (Inr (ex_msg 2 (lit ''hi''))) (ex_conv_state (lit ''   '') False)
      = (ex_conv_state (lit ''   '') False, [])
   \<and> sending (ex_conv_state (lit ''hi'') True)
   \<and> handleSend (Some 4) (Inr (ex_msg 2 (lit ''hi''))) (ex_conv_state (lit ''hi'') True)
      = (ex_conv_state (lit ''hi'') True, [])
   \<and> trim (newMessage (ex_conv_state (lit '' hi '') False)) = lit ''hi''
   \<and> \<not> sending (ex_conv_state (lit '' hi '') False)
   \<and> snd (handleSend (Some 4) (Inr (ex_msg 2 (lit ''hi''))) (ex_conv_state (lit '' hi '') False))
      = [SendMessage (Num 4) (lit ''hi'')]
   \<and> messages (fst (handleSend (Some 4) (Inr (ex_msg 2 (lit ''hi''))) (ex_conv_state (lit '' hi '') False)))
      = [ex_msg 1 (lit ''a''), ex_msg 2 (lit ''hi'')]"
proof -
  let ?blank = "ex_conv_state (lit ''   '') False" and ?busy = "ex_conv_state (lit ''hi'') True"
  let ?ok = "ex_conv_state (lit '' hi '') False" and ?r = "Inr (ex_msg 2 (lit ''hi'')) :: thrown + message"
  note inst = send_requires_content [where st = ?blank and idp = "Some 4" and r = ?r
      and sb = ?busy and idb = "Some 4" and rb = ?r
      and sc = ?ok and idc = "Some 4" and rc = ?r]
  have h1: "\<forall>c\<in>set (newMessage ?blank). is_ws c"
    by (simp add: ex_conv_state_def lit_def is_ws_def)
  have h2: "sending ?busy" by (simp add: ex_conv_state_def)
  have h3: "\<not> (\<forall>c\<in>set (newMessage ?ok). is_ws c) \<and> \<not> sending ?ok"
    by (simp add: ex_conv_state_def lit_def is_ws_def)
  have t: "trim (newMessage ?ok) = lit ''hi''"
    by (simp add: ex_conv_state_def lit_def is_ws_def trim_def)
  from inst h1 have c1: "handleSend (Some 4) ?r ?blank = (?blank, [])" by blast
  from inst h2 have c2: "handleSend (Some 4) ?r ?busy = (?busy, [])" by blast
  from inst h3 have "handleSend (Some 4) ?r ?ok
      = (case ?r of
             Inr m \<Rightarrow> (?ok\<lparr>messages := messages ?ok @ [m], newMessage := [], sending := False\<rparr>,
                       [SendMessage (Number (Some 4)) (trim (newMessage ?ok))])
           | Inl err \<Rightarrow> (?ok\<lparr>sending := False\<rparr>,
                         [SendMessage (Number (Some 4)) (trim (newMessage ?ok)),
                          Alert (err_message err (lit ''Failed to send message''))]))"
    by blast
  with t have c3: "snd (handleSend (Some 4) ?r ?ok) = [SendMessage (Num 4) (lit ''hi'')]"
    and c4: "messages (fst (handleSend (Some 4) ?r ?ok)) = [ex_msg 1 (lit ''a''), ex_msg 2 (lit ''hi'')]"
    by (simp_all add: ex_conv_state_def)
  have b: "trim (newMessage ?blank) = []"
    by (simp add: ex_conv_state_def lit_def is_ws_def trim_def)
  from b t h2 h3 c1 c2 c3 c4 show ?thesis by blast
qed

section \<open>C3: the cover message must have 50 characters\<close>

text \<open>
  Claim C3. With a cover message shorter than 50 code units \<open>handleApply\<close> sends no request,
  whatever the state, and the submit button is disabled, so that a click on it does nothing;
  in the apply modal \<open>handleApply\<close> then only sets the error shown to
  ``Cover message must be at least 50 characters''. Nothing reaches the backend, so the
  applications it holds are unchanged. With a cover message of 50 code units or more,
  \<open>handleApply\<close> in the apply modal sends \<open>createApplication\<close> for the project of the page
  with the selected role and the cover message.
\<close>

theorem apply_checks_cover_length:
  "(length (coverMessage st) < 50 \<longrightarrow>
      snd (handleApply r st) = [] \<and> submit_disabled st \<and> detail_step u (ClickSubmit r) st = (st, []))
   \<and> (modal_rendered sa \<and> length (coverMessage sa) < 50 \<longrightarrow>
        handleApply ra sa
        = (sa\<lparr>applyError := lit ''Cover message must be at least 50 characters''\<rparr>, []))
   \<and> (modal_rendered sb \<and> project sb = Some p \<and> 50 \<le> length (coverMessage sb) \<longrightarrow>
        snd (handleApply rb sb)
        = CreateApplication (proj_id p) (selectedRole sb) (coverMessage sb)
          # (case rb of Inr _ \<Rightarrow> [Navigate ''/applications''] | Inl _ \<Rightarrow> []))"
proof (intro conjI impI)
  assume short: "length (coverMessage st) < 50"
  then show "snd (handleApply r st) = []"
    by (simp add: handleApply_def split: option.splits)
  from short show "submit_disabled st" by (simp add: submit_disabled_def)
  then show "detail_step u (ClickSubmit r) st = (st, [])" by simp
next
  assume "modal_rendered sa \<and> length (coverMessage sa) < 50"
  then show "handleApply ra sa
        = (sa\<lparr>applyError := lit ''Cover message must be at least 50 characters''\<rparr>, [])"
    by (auto simp: handleApply_def modal_rendered_def page_rendered_def)
next
  assume "modal_rendered sb \<and> project sb = Some p \<and> 50 \<le> length (coverMessage sb)"
  then show "snd (handleApply rb sb)
        = CreateApplication (proj_id p) (selectedRole sb) (coverMessage sb)
          # (case rb of Inr _ \<Rightarrow> [Navigate ''/applications''] | Inl _ \<Rightarrow> [])"
    by (cases rb) (simp_all add: handleApply_def Let_def)
qed

theorem apply_checks_cover_length_witness:
  "length (coverMessage (ex_detail_state (lit ''too short''))) < 50
   \<and> modal_rendered (ex_detail_state (lit ''too short''))
   \<and> handleApply (Inr (ex_app (lit ''pending''))) (ex_detail_state (lit ''too short''))
      = ((ex_detail_state (lit ''too short''))
           \<lparr>applyError := lit ''Cover message must be at least 50 characters''\<rparr>, [])
   \<and> detail_step (Some ex_user) (ClickSubmit (Inr (ex_app (lit ''pending'')))) (ex_detail_state (lit ''too short''))
      = (ex_detail_state (lit ''too short''), [])
   \<and> modal_rendered (ex_detail_state ex_cover)
   \<and> 50 \<le> length (coverMessage (ex_detail_state ex_cover))
   \<and> snd (handleApply (Inr (ex_app (lit ''pending''))) (ex_detail_state ex_cover))
      = [CreateApplication 3 (lit ''Backend'') ex_cover, Navigate ''/applications'']"
proof -
  let ?short = "ex_detail_state (lit ''too short'')" and ?long = "ex_detail_state ex_cover"
  let ?r = "Inr (ex_app (lit ''pending'')) :: thrown + application"
  note inst = apply_checks_cover_length [where st = ?short and r = ?r and u = "Some ex_user"
      and sa = ?short and ra = ?r and sb = ?long and rb = ?r
      and p = "ex_project [lit ''Backend'', lit ''Frontend'']"]
  have h1: "length (coverMessage ?short) < 50" by (simp add: ex_detail_state_def lit_def)
  have h2: "modal_rendered ?short"
    by (simp add: ex_detail_state_def modal_rendered_def page_rendered_def)
  have h3: "modal_rendered ?long \<and> project ?long = Some (ex_project [lit ''Backend'', lit ''Frontend''])
      \<and> 50 \<le> length (coverMessage ?long)"
    by (simp add: ex_detail_state_def modal_rendered_def page_rendered_def ex_cover_def)
  from inst h1 have c1: "detail_step (Some ex_user) (ClickSubmit ?r) ?short = (?short, [])" by blast
  from inst h1 h2 have c2: "handleApply ?r ?short
      = (?short\<lparr>applyError := lit ''Cover message must be at least 50 characters''\<rparr>, [])" by blast
  from inst h3 have "snd (handleApply ?r ?long)
      = CreateApplication (proj_id (ex_project [lit ''Backend'', lit ''Frontend''])) (selectedRole ?long)
          (coverMessage ?long)
        # (case ?r of Inr _ \<Rightarrow> [Navigate ''/applications''] | Inl _ \<Rightarrow> [])" by blast
  then have c3: "snd (handleApply ?r ?long)
      = [CreateApplication 3 (lit ''Backend'') ex_cover, Navigate ''/applications'']"
    by (simp add: ex_detail_state_def ex_project_def)
  from h1 h2 h3 c1 c2 c3 show ?thesis by blast
qed

section \<open>C2: accepting twice\<close>

lemma find_set_status:
  "find (\<lambda>a. spa_id a = aid) xs = Some a \<Longrightarrow>
   find (\<lambda>a. spa_id a = aid) (map (\<lambda>a. if spa_id a = aid then a\<lparr>spa_status := s\<rparr> else a) xs)
   = Some (a\<lparr>spa_status := s\<rparr>)"
  by (induction xs) (auto split: if_splits)

lemma sp_join_frame:
  assumes "sp_join st pid uid role now = Inr sa"
  shows "sp_projects sa = sp_projects st \<and> sp_applications sa = sp_applications st"
  using assms by (auto simp: sp_join_def split: if_splits)

lemma sp_ensure_frame:
  "sp_projects (sp_ensure st pid) = sp_projects st \<and> sp_applications (sp_ensure st pid) = sp_applications st"
  by (simp add: sp_ensure_def)

lemma accept_accepted_noop:
  assumes "find (\<lambda>a. spa_id a = aid) (sp_applications st) = Some a"
    and "spa_status a = St_accepted"
    and "map_of (sp_projects st) (spa_project a) = Some p"
  shows "sp_transition st aid St_accepted (spp_creator p) now = Inr st"
  using assms by (simp add: sp_transition_def)

lemma accept_success_accepted:
  assumes "sp_transition st aid St_accepted actor now = Inr sa"
  shows "\<exists>a p. find (\<lambda>a. spa_id a = aid) (sp_applications sa) = Some a \<and> spa_status a = St_accepted
           \<and> map_of (sp_projects sa) (spa_project a) = Some p \<and> actor = spp_creator p"
proof -
  from assms obtain a where fa: "find (\<lambda>a. spa_id a = aid) (sp_applications st) = Some a"
    by (auto simp: sp_transition_def split: option.splits)
  with assms obtain p where fp: "map_of (sp_projects st) (spa_project a) = Some p"
    by (auto simp: sp_transition_def split: option.splits)
  from assms fa fp have actor: "actor = spp_creator p"
    by (auto simp: sp_transition_def split: if_splits)
  show ?thesis
  proof (cases "spa_status a = St_accepted")
    case True
    with assms fa fp actor have "sa = st" by (simp add: sp_transition_def)
    with fa fp actor True show ?thesis by blast
  next
    case False
    with assms fa fp actor obtain sj where
      j: "sp_join st (spa_project a) (spa_applicant a) (spa_role a) now = Inr sj"
      and sa: "sa = sp_set_status (sp_ensure sj (spa_project a)) aid St_accepted"
      by (auto simp: sp_transition_def split: if_splits sum.splits)
    from sp_join_frame [OF j] sp_ensure_frame [of sj "spa_project a"]
    have pr: "sp_projects (sp_ensure sj (spa_project a)) = sp_projects st"
      and ap: "sp_applications (sp_ensure sj (spa_project a)) = sp_applications st" by simp_all
    from sa pr have "sp_projects sa = sp_projects st" by (simp add: sp_set_status_def)
    moreover from sa ap find_set_status [OF fa, of St_accepted]
    have "find (\<lambda>a. spa_id a = aid) (sp_applications sa) = Some (a\<lparr>spa_status := St_accepted\<rparr>)"
      by (simp add: sp_set_status_def)
    ultimately show ?thesis using fp actor by auto
  qed
qed

lemma ex_first_accept:
  "sp_transition (ex_sp_state Open [ex_sp_app St_pending]) 7 St_accepted 9 100 = Inr ex_sp_accepted_state"
  by (simp add: sp_transition_def ex_sp_state_def ex_sp_app_def ex_sp_project_def sp_join_def
      sp_ensure_def sp_set_status_def fresh_id_def ex_sp_accepted_state_def)

text \<open>
  Claim C2. On the backend of section 4.1, accepting an application that is already accepted,
  by the creator of its project, succeeds and returns the state as it is: no Collaboration is
  added and no event is emitted. In particular an accept that has just succeeded can be
  repeated by the same actor, and the repeated call succeeds without changing anything.
\<close>

theorem accept_twice_is_idempotent:
  "(find (\<lambda>a. spa_id a = aid) (sp_applications st) = Some a \<and> spa_status a = St_accepted
      \<and> map_of (sp_projects st) (spa_project a) = Some p \<longrightarrow>
      sp_transition st aid St_accepted (spp_creator p) now = Inr st)
   \<and> (sp_transition sa aib St_accepted actor ta = Inr sb \<longrightarrow>
        sp_transition sb aib St_accepted actor tb = Inr sb)"
proof (intro conjI impI)
  assume "find (\<lambda>a. spa_id a = aid) (sp_applications st) = Some a \<and> spa_status a = St_accepted
      \<and> map_of (sp_projects st) (spa_project a) = Some p"
  then show "sp_transition st aid St_accepted (spp_creator p) now = Inr st"
    by (simp add: accept_accepted_noop)
next
  assume "sp_transition sa aib St_accepted actor ta = Inr sb"
  from accept_success_accepted [OF this] obtain a p where
    "find (\<lambda>a. spa_id a = aib) (sp_applications sb) = Some a" "spa_status a = St_accepted"
    "map_of (sp_projects sb) (spa_project a) = Some p" "actor = spp_creator p" by blast
  then show "sp_transition sb aib St_accepted actor tb = Inr sb"
    by (simp add: accept_accepted_noop)
qed

theorem accept_twice_is_idempotent_witness:
  "find (\<lambda>a. spa_id a = 7) (sp_applications ex_sp_accepted_state) = Some (ex_sp_app St_accepted)
   \<and> spa_status (ex_sp_app St_accepted) = St_accepted
   \<and> map_of (sp_projects ex_sp_accepted_state) (spa_project (ex_sp_app St_accepted)) = Some (ex_sp_project Open)
   \<and> sp_transition (ex_sp_state Open [ex_sp_app St_pending]) 7 St_accepted 9 100 = Inr ex_sp_accepted_state
   \<and> sp_transition ex_sp_accepted_state 7 St_accepted 9 200 = Inr ex_sp_accepted_state
   \<and> length (sp_collaborations ex_sp_accepted_state) = 1
   \<and> length (sp_events ex_sp_accepted_state) = 2"
proof -
  note inst = accept_twice_is_idempotent [where aid = 7 and st = ex_sp_accepted_state
      and a = "ex_sp_app St_accepted" and p = "ex_sp_project Open" and now = 200
      and sa = "ex_sp_state Open [ex_sp_app St_pending]" and aib = 7 and actor = 9 and ta = 100
      and sb = ex_sp_accepted_state and tb = 200]
  have h1: "find (\<lambda>a. spa_id a = 7) (sp_applications ex_sp_accepted_state) = Some (ex_sp_app St_accepted)
      \<and> spa_status (ex_sp_app St_accepted) = St_accepted
      \<and> map_of (sp_projects ex_sp_accepted_state) (spa_project (ex_sp_app St_accepted)) = Some (ex_sp_project Open)"
    by (simp add: ex_sp_accepted_state_def ex_sp_app_def)
  have h2: "sp_transition (ex_sp_state Open [ex_sp_app St_pending]) 7 St_accepted 9 100 = Inr ex_sp_accepted_state"
    by (rule ex_first_accept)
  from inst h1 have "sp_transition ex_sp_accepted_state 7 St_accepted (spp_creator (ex_sp_project Open)) 200
      = Inr ex_sp_accepted_state" by blast
  then have c: "sp_transition ex_sp_accepted_state 7 St_accepted 9 200 = Inr ex_sp_accepted_state"
    by (simp add: ex_sp_project_def)
  from inst h2 have "sp_transition ex_sp_accepted_state 7 St_accepted 9 200 = Inr ex_sp_accepted_state"
    by blast
  have n: "length (sp_collaborations ex_sp_accepted_state) = 1 \<and> length (sp_events ex_sp_accepted_state) = 2"
    by (simp add: ex_sp_accepted_state_def)
  from h1 h2 c n show ?thesis by blast
qed

section \<open>C10: a poll replaces the messages by a list longer than the one it captured\<close>




section \<open>A mount of ProjectDetailPage\<close>

lemma role_inv_init: "role_inv detail_init"
  by (simp add: role_inv_def detail_init_def)

lemma role_inv_fetch: "role_inv st \<Longrightarrow> role_inv (fst (fetchProject idp r st))"
proof (cases idp)
  case None
  assume "role_inv st"
  with None show ?thesis by simp
next
  case (Some i)
  assume inv: "role_inv st"
  show ?thesis
  proof (cases r)
    case (Inl err)
    with Some inv show ?thesis by (simp add: role_inv_def split: option.splits)
  next
    case (Inr data)
    with Some show ?thesis by (cases "roles_needed data") (simp_all add: role_inv_def Let_def)
  qed
qed

lemma handleApply_project: "project (fst (handleApply r st)) = project st"
  by (cases r) (auto simp: handleApply_def Let_def split: option.splits)

lemma handleApply_selectedRole: "selectedRole (fst (handleApply r st)) = selectedRole st"
  by (cases r) (auto simp: handleApply_def Let_def split: option.splits)


lemma role_inv_step:
  assumes "role_inv st"
  shows "role_inv (fst (detail_step u ev st))"
proof (cases ev)
  case ClickApply
  with assms show ?thesis by (auto simp: role_inv_def split: option.splits)
next
  case ClickCancel
  with assms show ?thesis by (auto simp: role_inv_def split: option.splits)
next
  case (SelectRole k)
  with assms show ?thesis
    by (auto simp: role_inv_def role_options_def split: option.splits)
next
  case (TypeCover s)
  with assms show ?thesis by (auto simp: role_inv_def split: option.splits)
next
  case (ClickSubmit r)
  with assms show ?thesis
    by (auto simp: role_inv_def handleApply_project handleApply_selectedRole split: option.splits)
next
  case (RouteChange idp r)
  with role_inv_fetch [OF assms, of idp r] show ?thesis by simp
qed

lemma role_inv_run: "role_inv st \<Longrightarrow> role_inv (fst (detail_run u evs st))"
proof (induction evs arbitrary: st)
  case Nil
  then show ?case by simp
next
  case (Cons ev evs)
  from role_inv_step [OF Cons.prems, of u ev]
  have "role_inv (fst (detail_run u evs (fst (detail_step u ev st))))" by (rule Cons.IH)
  then show ?case by (simp add: split_beta)
qed

lemma role_inv_visit: "role_inv (fst (detail_visit u idp r evs))"
proof -
  have "fst (detail_visit u idp r evs) = fst (detail_run u evs (fst (fetchProject idp r detail_init)))"
    by (simp add: detail_visit_def split_beta)
  with role_inv_run [OF role_inv_fetch [OF role_inv_init, of idp r], of u evs] show ?thesis by simp
qed

lemma fetchProject_out: "CreateApplication i role cover \<notin> set (snd (fetchProject idp r st))"
  by (cases idp; cases r) (simp_all add: Let_def)

lemma handleApply_request:
  assumes "CreateApplication i role cover \<in> set (snd (handleApply r st))"
  shows "\<exists>p. project st = Some p \<and> i = proj_id p \<and> role = selectedRole st
           \<and> cover = coverMessage st \<and> 50 \<le> length cover"
  using assms by (cases r) (auto simp: handleApply_def Let_def split: option.splits if_splits)

lemma detail_step_request:
  assumes "CreateApplication i role cover \<in> set (snd (detail_step u ev st))"
  shows "modal_rendered st \<and> (\<exists>p. project st = Some p \<and> i = proj_id p) \<and> role = selectedRole st
           \<and> cover = coverMessage st \<and> 50 \<le> length cover"
proof (cases ev)
  case (ClickSubmit r)
  with assms have m: "modal_rendered st" and "CreateApplication i role cover \<in> set (snd (handleApply r st))"
    by (auto split: if_splits)
  from handleApply_request [OF this(2)] m show ?thesis by blast
next
  case (RouteChange idp r)
  with assms fetchProject_out [of i role cover idp r st] show ?thesis by simp
qed (use assms in \<open>auto split: option.splits if_splits\<close>)

text \<open>
  All through a mount, whatever route changes and user events have happened, an application
  is sent for the project the page holds, and when that project declares roles, the role
  sent is one of them.
\<close>

lemma declared_role_sent:
  assumes "CreateApplication i role cover \<in> set (snd (detail_step u ev (fst (detail_visit u idp r evs))))"
  shows "\<exists>p. project (fst (detail_visit u idp r evs)) = Some p \<and> i = proj_id p
           \<and> (roles_needed p = [] \<or> role \<in> set (roles_needed p))"
proof -
  let ?st = "fst (detail_visit u idp r evs)"
  from detail_step_request [OF assms] obtain p where
    p: "project ?st = Some p" "i = proj_id p" and ro: "role = selectedRole ?st" by blast
  from role_inv_visit [of u idp r evs] p ro
  have "roles_needed p = [] \<or> role \<in> set (roles_needed p)" by (simp add: role_inv_def)
  with p show ?thesis by blast
qed

section \<open>C9: the role sent after a route change\<close>

text \<open>
  Claim C9 says that the role sent is a declared role of the project, and the empty string
  when the project declares no role. \<open>fetchProject\<close> assigns the selected role only when
  the fetched project declares roles. On a page mounted for project 3, which declares
  Backend and Frontend, the route changes to project 8, which declares no role: the selected
  role stays Backend, and the application the user then submits for project 8 is sent with
  the role Backend, which is neither the empty string nor a role of project 8.
\<close>

theorem stale_role_sent_after_route_change:
  "roles_needed ex_project_no_roles = []
   \<and> snd (detail_visit (Some ex_user) (Some (Num 3)) (Inr (ex_project [lit ''Backend'', lit ''Frontend'']))
        ex_events_route_change)
      = [GetProject (Num 3), GetProject (Num 8), CreateApplication 8 (lit ''Backend'') ex_cover,
         Navigate ''/applications'']"
  by (simp add: detail_visit_def detail_init_def ex_project_def ex_project_no_roles_def
      ex_events_route_change_def ex_user_def page_rendered_def modal_rendered_def canApply_def
      isCreator_def submit_disabled_def handleApply_def ex_cover_def Let_def)

theorem stale_role_sent_after_route_change_witness:
  "CreateApplication 8 (lit ''Backend'') ex_cover
     \<in> set (snd (detail_visit (Some ex_user) (Some (Num 3))
          (Inr (ex_project [lit ''Backend'', lit ''Frontend''])) ex_events_route_change))
   \<and> lit ''Backend'' \<notin> set (roles_needed ex_project_no_roles)
   \<and> lit ''Backend'' \<noteq> []"
proof -
  from stale_role_sent_after_route_change
  have e: "roles_needed ex_project_no_roles = []"
    and o: "snd (detail_visit (Some ex_user) (Some (Num 3)) (Inr (ex_project [lit ''Backend'', lit ''Frontend'']))
        ex_events_route_change)
      = [GetProject (Num 3), GetProject (Num 8), CreateApplication 8 (lit ''Backend'') ex_cover,
         Navigate ''/applications'']" by blast+
  from o have "CreateApplication 8 (lit ''Backend'') ex_cover
     \<in> set (snd (detail_visit (Some ex_user) (Some (Num 3))
          (Inr (ex_project [lit ''Backend'', lit ''Frontend''])) ex_events_route_change))" by simp
  moreover from e have "lit ''Backend'' \<notin> set (roles_needed ex_project_no_roles)" by simp
  moreover have "lit ''Backend'' \<noteq> []" by (simp add: lit_def)
  ultimately show ?thesis by blast
qed

section \<open>C4: applying is offered for an open project of someone else\<close>




end
